theory Spec2Isabelle
  imports Main
begin

section \<open>The data model of filesystem.js\<close>

text \<open>
  The repository is a TypeScript port of the \<^verbatim>\<open>java.nio.file\<close> facade: the static class
  \<^verbatim>\<open>Files\<close> dispatches every call to \<^verbatim>\<open>path.getFileSystem().provider()\<close>, and
  \<^verbatim>\<open>FileSystems\<close> resolves a URL to a file system through the registry of installed
  providers. The providers, the paths and the streams are interfaces whose implementations
  are not part of the sources modelled here, so they enter the model as parameters: a
  provider is a record of its methods, and every method that performs I/O is a function from
  the state of the outside world to a result and the next state. A thrown exception (a
  rejected promise, for the \<^verbatim>\<open>async\<close> methods) is the left summand of the result.
\<close>

subsection \<open>Exceptions\<close>

text \<open>
  One constructor for each exception class the sources throw or test with
  \<^verbatim>\<open>instanceof\<close>, carrying its message. \<open>TypeError\<close> is the error the JavaScript runtime
  raises for a property access on \<^verbatim>\<open>undefined\<close> and for iterating a value that is not
  iterable; \<open>Error\<close> is the plain \<^verbatim>\<open>Error\<close> class.
\<close>

datatype exn =
    NoSuchFileException string
  | FileAlreadyExistsException string
  | FileSystemException string "string option" string
  | SecurityException string
  | UnsupportedOperationException string
  | NullPointerException string
  | IllegalArgumentException string
  | ProviderNotFoundException string
  | TypeError string
  | Error string

text \<open>The \<^verbatim>\<open>instanceof\<close> tests of the sources.\<close>

fun isFileAlreadyExists :: "exn \<Rightarrow> bool" where
  "isFileAlreadyExists (FileAlreadyExistsException m) = True"
| "isFileAlreadyExists x = False"

fun isNoSuchFile :: "exn \<Rightarrow> bool" where
  "isNoSuchFile (NoSuchFileException m) = True"
| "isNoSuchFile x = False"

fun isSecurity :: "exn \<Rightarrow> bool" where
  "isSecurity (SecurityException m) = True"
| "isSecurity x = False"


subsection \<open>Options, attributes, paths\<close>

text \<open>
  An element of a \<^verbatim>\<open>LinkOption[]\<close> is the enum member \<^verbatim>\<open>NOFOLLOW_LINKS\<close>, a falsy value
  (\<^verbatim>\<open>null\<close>, \<^verbatim>\<open>undefined\<close>) or any other value; \<^verbatim>\<open>followLinks\<close> tells the three apart.
  An element of a \<^verbatim>\<open>CopyOption[]\<close> is \<^verbatim>\<open>REPLACE_EXISTING\<close>, \<^verbatim>\<open>null\<close>/\<^verbatim>\<open>undefined\<close>, or
  another option, given by the text it prints as.
\<close>

datatype link_option = NOFOLLOW_LINKS | Falsy_LinkOption | Other_LinkOption

datatype copy_option = REPLACE_EXISTING | Null_CopyOption | Other_CopyOption string

datatype open_option = READ | WRITE | APPEND | TRUNCATE_EXISTING | CREATE | CREATE_NEW

datatype access_mode = Access_READ | Access_WRITE | Access_EXECUTE

type_synonym file_attribute = string
type_synonym file_time = int
type_synonym file_system = nat
type_synonym readable_stream = nat
type_synonym writable_stream = nat
type_synonym env_map = "(string \<times> string) list"

record basic_file_attributes =
  attr_lastModifiedTime :: file_time
  attr_isRegularFile :: bool
  attr_isDirectory :: bool
  attr_isSymbolicLink :: bool
  attr_size :: int

text \<open>
  Modelled from the spec: the class \<^verbatim>\<open>Path\<close> is not among the sources. Section 3 gives
  its data: the owning file system (here the identity of that file system's provider, which
  is all \<^verbatim>\<open>Files\<close> reads from it), the absolute/relative flag and the ordered sequence
  of name components. Its methods are parameters of the model (record \<open>env\<close> below).
\<close>

record path =
  path_provider :: nat
  path_absolute :: bool
  path_names :: "string list"

record url =
  protocol :: string
  url_rest :: string

subsection \<open>Providers and the environment\<close>

text \<open>A call that may throw and may change the world: the world goes in and comes out.\<close>

type_synonym ('a, 'w) io = "'w \<Rightarrow> (exn + 'a) \<times> 'w"

text \<open>
  The methods of \<^verbatim>\<open>FileSystemProvider\<close> that \<^verbatim>\<open>Files\<close> and \<^verbatim>\<open>FileSystems\<close> call. An
  optional argument (\<^verbatim>\<open>options?: LinkOption[]\<close>) is an \<open>option\<close>, \<open>None\<close> standing for
  \<^verbatim>\<open>undefined\<close>.
\<close>

record 'w fs_provider =
  getScheme :: string
  p_getFileSystem :: "url \<Rightarrow> (file_system option, 'w) io"
  p_newFileSystemFromUrl :: "url \<Rightarrow> env_map \<Rightarrow> (file_system, 'w) io"
  p_newOutputStream :: "path \<Rightarrow> open_option list option \<Rightarrow> (writable_stream, 'w) io"
  p_createDirectory :: "path \<Rightarrow> file_attribute list option \<Rightarrow> (unit, 'w) io"
  p_deleteIfExists :: "path \<Rightarrow> (bool, 'w) io"
  p_copy :: "path \<Rightarrow> path \<Rightarrow> copy_option list option \<Rightarrow> (unit, 'w) io"
  p_move :: "path \<Rightarrow> path \<Rightarrow> copy_option list option \<Rightarrow> (unit, 'w) io"
  p_checkAccess :: "path \<Rightarrow> access_mode list option \<Rightarrow> (unit, 'w) io"
  p_readAttributesWithType ::
    "path \<Rightarrow> string option \<Rightarrow> link_option list option \<Rightarrow> (basic_file_attributes, 'w) io"

text \<open>
  Everything else the modelled code calls but does not define: the provider objects by
  identity, the registry \<^verbatim>\<open>FileSystemProviders.getInstalledProviders()\<close>, the methods of
  \<^verbatim>\<open>Path\<close>, the two functions of \<^verbatim>\<open>CopyMoveHelper\<close>, and the stream methods
  \<^verbatim>\<open>pipeTo\<close> and \<^verbatim>\<open>close\<close>.
\<close>

record 'w env =
  providers :: "nat \<Rightarrow> 'w fs_provider"
  installedProviders :: "'w fs_provider list"
  path_toAbsolutePath :: "path \<Rightarrow> (path, 'w) io"
  path_getParent :: "path \<Rightarrow> path option"
  path_relativize :: "path \<Rightarrow> path \<Rightarrow> exn + path"
  path_iterator :: "path \<Rightarrow> path list"
  path_resolve :: "path \<Rightarrow> path \<Rightarrow> path"
  path_toString :: "path \<Rightarrow> string"
  copyToForeignTarget :: "path \<Rightarrow> path \<Rightarrow> copy_option list option \<Rightarrow> (unit, 'w) io"
  moveToForeignTarget :: "path \<Rightarrow> path \<Rightarrow> copy_option list option \<Rightarrow> (unit, 'w) io"
  stream_pipeTo :: "readable_stream \<Rightarrow> writable_stream \<Rightarrow> (unit, 'w) io"
  stream_close :: "writable_stream \<Rightarrow> (unit, 'w) io"

section \<open>The facade Files\<close>

text \<open>\<^verbatim>\<open>Files.provider(path)\<close>: \<^verbatim>\<open>path.getFileSystem().provider()\<close>.\<close>

definition provider :: "'w env \<Rightarrow> path \<Rightarrow> 'w fs_provider" where
  "provider env p = providers env (path_provider p)"

subsection \<open>Reading attributes\<close>

definition readAttributesWithType ::
  "'w env \<Rightarrow> path \<Rightarrow> string option \<Rightarrow> link_option list option \<Rightarrow> (basic_file_attributes, 'w) io"
where
  "readAttributesWithType env p type options w =
     p_readAttributesWithType (provider env p) p type options w"

text \<open>
  \<^verbatim>\<open>isSymbolicLink\<close>, \<^verbatim>\<open>isDirectory\<close> and \<^verbatim>\<open>isRegularFile\<close> wrap the read in
  \<^verbatim>\<open>try { ... } catch (ioe) { return false; }\<close>.
\<close>

definition isSymbolicLink :: "'w env \<Rightarrow> path \<Rightarrow> (bool, 'w) io" where
  "isSymbolicLink env p w =
     (case readAttributesWithType env p None (Some [NOFOLLOW_LINKS]) w of
        (Inr a, w') \<Rightarrow> (Inr (attr_isSymbolicLink a), w')
      | (Inl ioe, w') \<Rightarrow> (Inr False, w'))"

definition isDirectory :: "'w env \<Rightarrow> path \<Rightarrow> link_option list option \<Rightarrow> (bool, 'w) io" where
  "isDirectory env p options w =
     (case readAttributesWithType env p None options w of
        (Inr a, w') \<Rightarrow> (Inr (attr_isDirectory a), w')
      | (Inl ioe, w') \<Rightarrow> (Inr False, w'))"

definition isRegularFile :: "'w env \<Rightarrow> path \<Rightarrow> link_option list option \<Rightarrow> (bool, 'w) io" where
  "isRegularFile env p options w =
     (case readAttributesWithType env p None options w of
        (Inr a, w') \<Rightarrow> (Inr (attr_isRegularFile a), w')
      | (Inl ioe, w') \<Rightarrow> (Inr False, w'))"

text \<open>\<^verbatim>\<open>getLastModifiedTime\<close> and \<^verbatim>\<open>size\<close> have no \<^verbatim>\<open>try\<close>: a failed read propagates.\<close>

definition getLastModifiedTime ::
  "'w env \<Rightarrow> path \<Rightarrow> link_option list option \<Rightarrow> (file_time, 'w) io"
where
  "getLastModifiedTime env p options w =
     (case readAttributesWithType env p None options w of
        (Inr a, w') \<Rightarrow> (Inr (attr_lastModifiedTime a), w')
      | (Inl x, w') \<Rightarrow> (Inl x, w'))"

definition size_Files :: "'w env \<Rightarrow> path \<Rightarrow> (int, 'w) io" where
  "size_Files env p w =
     (case readAttributesWithType env p None None w of
        (Inr a, w') \<Rightarrow> (Inr (attr_size a), w')
      | (Inl x, w') \<Rightarrow> (Inl x, w'))"

subsection \<open>Existence\<close>

text \<open>
  \<^verbatim>\<open>followLinks\<close>: the loop over the options leaves at the first element that is not
  \<^verbatim>\<open>NOFOLLOW_LINKS\<close>, with a \<^verbatim>\<open>NullPointerException\<close> for a falsy element and the error
  \<^verbatim>\<open>Should not get here\<close> for any other.
\<close>

fun followLinks_loop :: "link_option list \<Rightarrow> bool \<Rightarrow> exn + bool" where
  "followLinks_loop [] followLinks = Inr followLinks"
| "followLinks_loop (opt # opts) followLinks =
     (if opt = NOFOLLOW_LINKS then followLinks_loop opts False
      else if opt = Falsy_LinkOption then Inl (NullPointerException [])
      else Inl (Error ''Should not get here''))"

definition followLinks :: "link_option list option \<Rightarrow> exn + bool" where
  "followLinks options =
     (case options of None \<Rightarrow> Inr True | Some opts \<Rightarrow> followLinks_loop opts True)"

text \<open>
  The body of the \<^verbatim>\<open>try\<close> block, which \<^verbatim>\<open>exists\<close> and \<^verbatim>\<open>notExists\<close> share word for
  word: an access check that follows links, or a read of the attributes that does not.
\<close>

definition existenceCheck :: "'w env \<Rightarrow> path \<Rightarrow> link_option list option \<Rightarrow> (unit, 'w) io" where
  "existenceCheck env p options w =
     (case followLinks options of
        Inl x \<Rightarrow> (Inl x, w)
      | Inr True \<Rightarrow> p_checkAccess (provider env p) p None w
      | Inr False \<Rightarrow>
          (case readAttributesWithType env p (Some ''BasicFileAttributes'')
                  (Some [NOFOLLOW_LINKS]) w of
             (Inr a, w') \<Rightarrow> (Inr (), w')
           | (Inl x, w') \<Rightarrow> (Inl x, w')))"

definition exists_Files :: "'w env \<Rightarrow> path \<Rightarrow> link_option list option \<Rightarrow> (bool, 'w) io" where
  "exists_Files env p options w =
     (case existenceCheck env p options w of
        (Inr u, w') \<Rightarrow> (Inr True, w')
      | (Inl x, w') \<Rightarrow> (Inr False, w'))"

definition notExists :: "'w env \<Rightarrow> path \<Rightarrow> link_option list option \<Rightarrow> (bool, 'w) io" where
  "notExists env p options w =
     (case existenceCheck env p options w of
        (Inr u, w') \<Rightarrow> (Inr False, w')
      | (Inl x, w') \<Rightarrow> (if isNoSuchFile x then (Inr True, w') else (Inr False, w')))"

subsection \<open>Creating directories\<close>

definition createDirectory :: "'w env \<Rightarrow> path \<Rightarrow> file_attribute list option \<Rightarrow> (path, 'w) io" where
  "createDirectory env dir attrs w =
     (case p_createDirectory (provider env dir) dir attrs w of
        (Inr u, w') \<Rightarrow> (Inr dir, w')
      | (Inl x, w') \<Rightarrow> (Inl x, w'))"

text \<open>
  \<^verbatim>\<open>createAndCheckIsDirectory\<close>: the \<^verbatim>\<open>catch\<close> clause catches everything and re-throws
  only under the condition
  \<^verbatim>\<open>x instanceof FileAlreadyExistsException && !this.isDirectory(dir, [NOFOLLOW_LINKS])\<close>;
  \<^verbatim>\<open>&&\<close> evaluates \<^verbatim>\<open>isDirectory\<close> only for a \<^verbatim>\<open>FileAlreadyExistsException\<close>.
\<close>

definition createAndCheckIsDirectory ::
  "'w env \<Rightarrow> path \<Rightarrow> file_attribute list option \<Rightarrow> (unit, 'w) io"
where
  "createAndCheckIsDirectory env dir attrs w =
     (case createDirectory env dir attrs w of
        (Inr d, w') \<Rightarrow> (Inr (), w')
      | (Inl x, w') \<Rightarrow>
          (if isFileAlreadyExists x then
             (case isDirectory env dir (Some [NOFOLLOW_LINKS]) w' of
                (Inr b, w'') \<Rightarrow> (if \<not> b then (Inl x, w'') else (Inr (), w''))
              | (Inl y, w'') \<Rightarrow> (Inl y, w''))
           else (Inr (), w')))"

text \<open>
  The \<^verbatim>\<open>while (parent != null)\<close> loop of \<^verbatim>\<open>createDirectories\<close>: it leaves at the first
  parent whose access check returns; the \<^verbatim>\<open>catch\<close> clause has no \<^verbatim>\<open>throw\<close>, so after
  any failure the loop goes on with \<^verbatim>\<open>parent.getParent()\<close>. Nothing bounds the chain of
  parents of an arbitrary \<^verbatim>\<open>Path\<close> implementation, so the loop is a partial function:
  \<open>None\<close> is a loop that never ends.
\<close>

partial_function (option) findAccessibleParent ::
  "'w env \<Rightarrow> path option \<Rightarrow> 'w \<Rightarrow> (path option \<times> 'w) option"
where
  "findAccessibleParent env parent w =
     (case parent of
        None \<Rightarrow> Some (None, w)
      | Some p \<Rightarrow>
          (case p_checkAccess (provider env p) p None w of
             (Inr u, w') \<Rightarrow> Some (Some p, w')
           | (Inl x, w') \<Rightarrow> findAccessibleParent env (path_getParent env p) w'))"

declare findAccessibleParent.simps [code]

text \<open>The \<^verbatim>\<open>for (let name of parent.relativize(dir))\<close> loop.\<close>

fun createChildren ::
  "'w env \<Rightarrow> path \<Rightarrow> path list \<Rightarrow> file_attribute list option \<Rightarrow> (unit, 'w) io"
where
  "createChildren env child [] attrs w = (Inr (), w)"
| "createChildren env child (name # names) attrs w =
     (case createAndCheckIsDirectory env (path_resolve env child name) attrs w of
        (Inl x, w') \<Rightarrow> (Inl x, w')
      | (Inr u, w') \<Rightarrow> createChildren env (path_resolve env child name) names attrs w')"

text \<open>
  \<^verbatim>\<open>createDirectories\<close>. The first \<^verbatim>\<open>try\<close> returns \<^verbatim>\<open>dir\<close> or re-throws a
  \<^verbatim>\<open>FileAlreadyExistsException\<close>; any other exception falls through to the walk up to an
  accessible parent and down again. \<open>se\<close> is the \<^verbatim>\<open>SecurityException\<close> of
  \<^verbatim>\<open>toAbsolutePath\<close>, if it threw one (any other exception of it is dropped, and
  \<^verbatim>\<open>dir\<close> stays as it was).
\<close>

definition createDirectories ::
  "'w env \<Rightarrow> path \<Rightarrow> file_attribute list option \<Rightarrow> 'w \<Rightarrow> ((exn + path) \<times> 'w) option"
where
  "createDirectories env dir attrs w =
     (case createAndCheckIsDirectory env dir attrs w of
        (Inr u, w1) \<Rightarrow> Some (Inr dir, w1)
      | (Inl x, w1) \<Rightarrow>
          (if isFileAlreadyExists x then Some (Inl x, w1)
           else
             (case (case path_toAbsolutePath env dir w1 of
                      (Inr d, w2) \<Rightarrow> (None, d, w2)
                    | (Inl y, w2) \<Rightarrow> (if isSecurity y then Some y else None, dir, w2)) of
                (se, dir', w2) \<Rightarrow>
                  (case findAccessibleParent env (path_getParent env dir') w2 of
                     None \<Rightarrow> None
                   | Some (None, w3) \<Rightarrow>
                       (case se of
                          None \<Rightarrow>
                            Some (Inl (FileSystemException (path_toString env dir') None
                                    ''Unable to determine if root directory exists''), w3)
                        | Some s \<Rightarrow> Some (Inl s, w3))
                   | Some (Some parent, w3) \<Rightarrow>
                       (case path_relativize env parent dir' of
                          Inl y \<Rightarrow> Some (Inl y, w3)
                        | Inr rel \<Rightarrow>
                            (case createChildren env parent (path_iterator env rel) attrs w3 of
                               (Inl y, w4) \<Rightarrow> Some (Inl y, w4)
                             | (Inr u, w4) \<Rightarrow> Some (Inr dir', w4)))))))"

subsection \<open>Copy and move\<close>

definition deleteIfExists :: "'w env \<Rightarrow> path \<Rightarrow> (bool, 'w) io" where
  "deleteIfExists env p w = p_deleteIfExists (provider env p) p w"

definition newOutputStream ::
  "'w env \<Rightarrow> path \<Rightarrow> open_option list option \<Rightarrow> (writable_stream, 'w) io"
where
  "newOutputStream env p options w = p_newOutputStream (provider env p) p options w"

text \<open>
  \<^verbatim>\<open>copy\<close> and \<^verbatim>\<open>move\<close>: \<^verbatim>\<open>this.provider(target) === provider\<close> compares the two
  provider objects by identity, which is the provider reference held by the path.
\<close>

definition copy :: "'w env \<Rightarrow> path \<Rightarrow> path \<Rightarrow> copy_option list option \<Rightarrow> (path, 'w) io" where
  "copy env source target options w =
     (case (if path_provider target = path_provider source
            then p_copy (provider env source) source target options w
            else copyToForeignTarget env source target options w) of
        (Inl x, w') \<Rightarrow> (Inl x, w')
      | (Inr u, w') \<Rightarrow> (Inr target, w'))"

definition move :: "'w env \<Rightarrow> path \<Rightarrow> path \<Rightarrow> copy_option list option \<Rightarrow> (path, 'w) io" where
  "move env source target options w =
     (case (if path_provider target = path_provider source
            then p_move (provider env source) source target options w
            else moveToForeignTarget env source target options w) of
        (Inl x, w') \<Rightarrow> (Inl x, w')
      | (Inr u, w') \<Rightarrow> (Inr target, w'))"

subsection \<open>Copying from a stream\<close>

text \<open>
  \<^verbatim>\<open>copyFromStream\<close>, in the order of its source. First the loop over the options, which
  throws at the first element that is not \<^verbatim>\<open>REPLACE_EXISTING\<close>.
\<close>

fun copyOptions_loop :: "copy_option list \<Rightarrow> bool \<Rightarrow> exn + bool" where
  "copyOptions_loop [] replaceExisting = Inr replaceExisting"
| "copyOptions_loop (opt # opts) replaceExisting =
     (case opt of
        REPLACE_EXISTING \<Rightarrow> copyOptions_loop opts True
      | Null_CopyOption \<Rightarrow>
          Inl (NullPointerException (''options contains '' @ [CHR 0x27] @ ''null'' @ [CHR 0x27]))
      | Other_CopyOption s \<Rightarrow> Inl (UnsupportedOperationException (s @ '' not supported'')))"

text \<open>
  The deletion of the target before the copy. Its \<^verbatim>\<open>catch\<close> clause keeps a
  \<^verbatim>\<open>SecurityException\<close> in \<open>se\<close> and has no \<^verbatim>\<open>throw\<close>.
\<close>

definition preDelete :: "'w env \<Rightarrow> path \<Rightarrow> bool \<Rightarrow> 'w \<Rightarrow> exn option \<times> 'w" where
  "preDelete env target replaceExisting w =
     (if replaceExisting then
        (case deleteIfExists env target w of
           (Inr b, w') \<Rightarrow> (None, w')
         | (Inl e, w') \<Rightarrow> (if isSecurity e then Some e else None, w'))
      else (None, w))"

text \<open>
  The \<^verbatim>\<open>try\<close>/\<^verbatim>\<open>catch\<close>/\<^verbatim>\<open>finally\<close> statement. \<open>outputStream\<close> is declared without a
  value, so it is \<^verbatim>\<open>undefined\<close> (\<open>None\<close>) until \<^verbatim>\<open>newOutputStream\<close> has returned. The
  \<^verbatim>\<open>catch\<close> clause re-throws for a \<^verbatim>\<open>FileAlreadyExistsException\<close> only (\<open>se\<close> if there
  is one, else the exception itself). The \<^verbatim>\<open>finally\<close> clause then evaluates
  \<^verbatim>\<open>outputStream.close()\<close>: a \<open>TypeError\<close> on \<^verbatim>\<open>undefined\<close>, and an exception thrown
  inside \<^verbatim>\<open>finally\<close> replaces the one that was pending.
\<close>

definition openPipeClose ::
  "'w env \<Rightarrow> readable_stream \<Rightarrow> path \<Rightarrow> exn option \<Rightarrow> (unit, 'w) io"
where
  "openPipeClose env inputStream target se w =
     (case (case newOutputStream env target (Some [CREATE_NEW, WRITE]) w of
              (Inl x, w1) \<Rightarrow> (None, Inl x, w1)
            | (Inr out, w1) \<Rightarrow>
                (case stream_pipeTo env inputStream out w1 of (r, w2) \<Rightarrow> (Some out, r, w2))) of
        (outputStream, tried, w2) \<Rightarrow>
          (case outputStream of
             None \<Rightarrow> (Inl (TypeError ''Cannot read properties of undefined''), w2)
           | Some out \<Rightarrow>
               (case stream_close env out w2 of
                  (Inl y, w3) \<Rightarrow> (Inl y, w3)
                | (Inr u, w3) \<Rightarrow>
                    (case tried of
                       Inr v \<Rightarrow> (Inr (), w3)
                     | Inl x \<Rightarrow>
                         (if isFileAlreadyExists x then
                            (case se of Some s \<Rightarrow> (Inl s, w3) | None \<Rightarrow> (Inl x, w3))
                          else (Inr (), w3))))))"

text \<open>
  The whole method. \<open>inputStream = None\<close> is a falsy argument; \<open>options = None\<close> is the
  omitted argument, and \<^verbatim>\<open>for (let opt of undefined)\<close> is a \<open>TypeError\<close>.
\<close>

definition copyFromStream ::
  "'w env \<Rightarrow> readable_stream option \<Rightarrow> path \<Rightarrow> copy_option list option \<Rightarrow> (unit, 'w) io"
where
  "copyFromStream env inputStream target options w =
     (case inputStream of
        None \<Rightarrow> (Inl (NullPointerException []), w)
      | Some ins \<Rightarrow>
          (case options of
             None \<Rightarrow> (Inl (TypeError ''options is not iterable''), w)
           | Some opts \<Rightarrow>
               (case copyOptions_loop opts False of
                  Inl x \<Rightarrow> (Inl x, w)
                | Inr replaceExisting \<Rightarrow>
                    (case preDelete env target replaceExisting w of
                       (se, w1) \<Rightarrow> openPipeClose env ins target se w1))))"

section \<open>The facade FileSystems\<close>

text \<open>
  \<^verbatim>\<open>String.prototype.toLowerCase\<close> on the ASCII letters, which are the letters a URL
  scheme is made of.
\<close>

definition toLowerCase_char :: "char \<Rightarrow> char" where
  "toLowerCase_char c =
     (if 65 \<le> (of_char c :: nat) \<and> (of_char c :: nat) \<le> 90
      then char_of (of_char c + (32 :: nat)) else c)"

definition toLowerCase :: "string \<Rightarrow> string" where
  "toLowerCase s = map toLowerCase_char s"

text \<open>
  The built-in class \<^verbatim>\<open>URL\<close>, as far as the code reads it: the \<^verbatim>\<open>protocol\<close> of
  \<^verbatim>\<open>new URL(scheme + ":" + rest)\<close> is the scheme in lower case, followed by the colon.
\<close>

definition URL :: "string \<Rightarrow> string \<Rightarrow> url" where
  "URL scheme rest = \<lparr> protocol = toLowerCase scheme @ '':'', url_rest = rest \<rparr>"

text \<open>
  \<^verbatim>\<open>getFileSystem\<close>: the loop over the installed providers returns at the first provider
  with \<^verbatim>\<open>provider.getScheme() === scheme\<close>. The test \<^verbatim>\<open>scheme === null\<close> before the loop
  has no branch here: \<^verbatim>\<open>toLowerCase\<close> returns a string.
\<close>

fun getFileSystem_loop ::
  "'w fs_provider list \<Rightarrow> string \<Rightarrow> url \<Rightarrow> (file_system option, 'w) io"
where
  "getFileSystem_loop [] scheme u w =
     (Inl (ProviderNotFoundException
             (''Provider '' @ [CHR 0x22] @ scheme @ [CHR 0x22] @ '' not found'')), w)"
| "getFileSystem_loop (p # ps) scheme u w =
     (if getScheme p = scheme then p_getFileSystem p u w
      else getFileSystem_loop ps scheme u w)"

definition getFileSystem :: "'w env \<Rightarrow> url \<Rightarrow> (file_system option, 'w) io" where
  "getFileSystem env u w =
     getFileSystem_loop (installedProviders env) (toLowerCase (protocol u)) u w"



section \<open>Example providers and environments\<close>

text \<open>
  Concrete instances of the parameters, on which the model can be run. A provider none of
  whose operations is supported, and an environment with a simple implementation of the
  \<^verbatim>\<open>Path\<close> methods: the parent drops the last name, and is \<^verbatim>\<open>null\<close> for a path without
  names.
\<close>

definition no_provider :: "'w fs_provider" where
  "no_provider =
     \<lparr> getScheme = ''none'',
       p_getFileSystem = (\<lambda>u w. (Inl (UnsupportedOperationException []), w)),
       p_newFileSystemFromUrl = (\<lambda>u e w. (Inl (UnsupportedOperationException []), w)),
       p_newOutputStream = (\<lambda>p options w. (Inl (UnsupportedOperationException []), w)),
       p_createDirectory = (\<lambda>p attrs w. (Inl (UnsupportedOperationException []), w)),
       p_deleteIfExists = (\<lambda>p w. (Inl (UnsupportedOperationException []), w)),
       p_copy = (\<lambda>s t options w. (Inl (UnsupportedOperationException []), w)),
       p_move = (\<lambda>s t options w. (Inl (UnsupportedOperationException []), w)),
       p_checkAccess = (\<lambda>p modes w. (Inl (UnsupportedOperationException []), w)),
       p_readAttributesWithType =
         (\<lambda>p type options w. (Inl (UnsupportedOperationException []), w)) \<rparr>"

definition slash_toString :: "path \<Rightarrow> string" where
  "slash_toString p = concat (map (\<lambda>n. CHR ''/'' # n) (path_names p))"

definition plain_env :: "(nat \<Rightarrow> 'w fs_provider) \<Rightarrow> 'w fs_provider list \<Rightarrow> 'w env" where
  "plain_env ps installed =
     \<lparr> providers = ps,
       installedProviders = installed,
       path_toAbsolutePath = (\<lambda>p w. (Inr (p\<lparr>path_absolute := True\<rparr>), w)),
       path_getParent =
         (\<lambda>p. if path_names p = [] then None
              else Some (p\<lparr>path_names := butlast (path_names p)\<rparr>)),
       path_relativize =
         (\<lambda>p q. Inr (q\<lparr>path_absolute := False,
                        path_names := drop (length (path_names p)) (path_names q)\<rparr>)),
       path_iterator =
         (\<lambda>p. map (\<lambda>n. p\<lparr>path_absolute := False, path_names := [n]\<rparr>) (path_names p)),
       path_resolve = (\<lambda>p q. p\<lparr>path_names := path_names p @ path_names q\<rparr>),
       path_toString = slash_toString,
       copyToForeignTarget = (\<lambda>s t options w. (Inl (UnsupportedOperationException []), w)),
       moveToForeignTarget = (\<lambda>s t options w. (Inl (UnsupportedOperationException []), w)),
       stream_pipeTo = (\<lambda>i out w. (Inl (UnsupportedOperationException []), w)),
       stream_close = (\<lambda>out w. (Inl (UnsupportedOperationException []), w)) \<rparr>"

subsection \<open>A file system in memory\<close>

text \<open>
  The world is the tree of entries, a map from the names of a path to the kind of the entry
  there. Creating a directory fails with \<^verbatim>\<open>FileAlreadyExists\<close> when the path has an
  entry, with \<^verbatim>\<open>NoSuchFile\<close> when its parent has none, and with a
  \<^verbatim>\<open>FileSystemException\<close> (``Not a directory'') when its parent is a regular file;
  reading the attributes and checking the access fail with \<^verbatim>\<open>NoSuchFile\<close> when the
  path has no entry. A failed operation leaves the tree as it was.
\<close>

datatype node = Directory | RegularFile

type_synonym tree = "string list \<Rightarrow> node option"

definition attributesOf :: "node \<Rightarrow> basic_file_attributes" where
  "attributesOf n =
     \<lparr> attr_lastModifiedTime = 0,
       attr_isRegularFile = (n = RegularFile),
       attr_isDirectory = (n = Directory),
       attr_isSymbolicLink = False,
       attr_size = 0 \<rparr>"

definition tree_createDirectory :: "path \<Rightarrow> file_attribute list option \<Rightarrow> (unit, tree) io" where
  "tree_createDirectory p attrs t =
     (case t (path_names p) of
        Some n \<Rightarrow> (Inl (FileAlreadyExistsException (slash_toString p)), t)
      | None \<Rightarrow>
          (case t (butlast (path_names p)) of
             None \<Rightarrow> (Inl (NoSuchFileException (slash_toString p)), t)
           | Some RegularFile \<Rightarrow>
               (Inl (FileSystemException (slash_toString p) None ''Not a directory''), t)
           | Some Directory \<Rightarrow> (Inr (), t(path_names p \<mapsto> Directory))))"

definition tree_readAttributes ::
  "path \<Rightarrow> string option \<Rightarrow> link_option list option \<Rightarrow> (basic_file_attributes, tree) io"
where
  "tree_readAttributes p type options t =
     (case t (path_names p) of
        None \<Rightarrow> (Inl (NoSuchFileException (slash_toString p)), t)
      | Some n \<Rightarrow> (Inr (attributesOf n), t))"

definition tree_checkAccess :: "path \<Rightarrow> access_mode list option \<Rightarrow> (unit, tree) io" where
  "tree_checkAccess p modes t =
     (case t (path_names p) of
        None \<Rightarrow> (Inl (NoSuchFileException (slash_toString p)), t)
      | Some n \<Rightarrow> (Inr (), t))"

definition tree_provider :: "tree fs_provider" where
  "tree_provider =
     no_provider
       \<lparr> getScheme := ''mem:'',
         p_createDirectory := tree_createDirectory,
         p_checkAccess := tree_checkAccess,
         p_readAttributesWithType := tree_readAttributes \<rparr>"

definition tree_env :: "tree env" where
  "tree_env = plain_env (\<lambda>i. tree_provider) [tree_provider]"

text \<open>The same provider behind an access check that denies every path.\<close>

definition locked_env :: "tree env" where
  "locked_env =
     plain_env
       (\<lambda>i. tree_provider
              \<lparr> p_checkAccess := (\<lambda>p modes t. (Inl (SecurityException (slash_toString p)), t)) \<rparr>)
       []"

text \<open>A tree with the root directory, the directory \<^verbatim>\<open>/a\<close> and the regular file \<^verbatim>\<open>/a/f\<close>.\<close>

definition small_tree :: tree where
  "small_tree = [[] \<mapsto> Directory, [''a''] \<mapsto> Directory, [''a'', ''f''] \<mapsto> RegularFile]"

definition mem_path :: "string list \<Rightarrow> path" where
  "mem_path ns = \<lparr> path_provider = 0, path_absolute = True, path_names = ns \<rparr>"

subsection \<open>Providers that log their calls\<close>

text \<open>
  Here the world is the list of the calls made so far, and the result of each call is fixed
  in advance: the parameters are the results of \<^verbatim>\<open>deleteIfExists\<close>,
  \<^verbatim>\<open>newOutputStream\<close>, \<^verbatim>\<open>pipeTo\<close> and \<^verbatim>\<open>close\<close>.
\<close>

datatype call =
    Call_deleteIfExists
  | Call_newOutputStream
  | Call_pipeTo readable_stream writable_stream
  | Call_close writable_stream
  | Call_getFileSystem string
  | Call_newFileSystemFromUrl nat
  | Call_copy nat
  | Call_move nat
  | Call_copyToForeignTarget
  | Call_moveToForeignTarget

definition stream_env ::
  "exn + bool \<Rightarrow> exn + writable_stream \<Rightarrow> exn + unit \<Rightarrow> exn + unit \<Rightarrow> call list env"
where
  "stream_env deleted opened piped closed =
     (plain_env
        (\<lambda>i. no_provider
               \<lparr> p_deleteIfExists := (\<lambda>p log. (deleted, log @ [Call_deleteIfExists])),
                 p_newOutputStream := (\<lambda>p options log. (opened, log @ [Call_newOutputStream])) \<rparr>)
        [])
       \<lparr> stream_pipeTo := (\<lambda>i out log. (piped, log @ [Call_pipeTo i out])),
         stream_close := (\<lambda>out log. (closed, log @ [Call_close out])) \<rparr>"

text \<open>
  Providers for the registry: a scheme, a number, and the result of its
  \<^verbatim>\<open>newFileSystemFromUrl\<close>; \<^verbatim>\<open>getFileSystem\<close> returns the file system with the
  provider's number.
\<close>

definition scheme_provider :: "string \<Rightarrow> nat \<Rightarrow> exn + file_system \<Rightarrow> call list fs_provider" where
  "scheme_provider scheme i created =
     no_provider
       \<lparr> getScheme := scheme,
         p_getFileSystem := (\<lambda>u log. (Inr (Some i), log @ [Call_getFileSystem scheme])),
         p_newFileSystemFromUrl := (\<lambda>u e log. (created, log @ [Call_newFileSystemFromUrl i])),
         p_copy := (\<lambda>s t options log. (Inr (), log @ [Call_copy i])),
         p_move := (\<lambda>s t options log. (Inr (), log @ [Call_move i])) \<rparr>"

definition registry_env :: "call list fs_provider list \<Rightarrow> call list env" where
  "registry_env installed =
     (plain_env (\<lambda>i. scheme_provider ''mem:'' i (Inr i)) installed)
       \<lparr> copyToForeignTarget := (\<lambda>s t options log. (Inr (), log @ [Call_copyToForeignTarget])),
         moveToForeignTarget := (\<lambda>s t options log. (Inr (), log @ [Call_moveToForeignTarget])) \<rparr>"

lemmas tree_env_simps =
  tree_env_def plain_env_def tree_provider_def no_provider_def provider_def
  tree_createDirectory_def tree_readAttributes_def tree_checkAccess_def
  attributesOf_def slash_toString_def small_tree_def mem_path_def

section \<open>Attribute getters\<close>

lemma isDirectory_result:
  "fst (isDirectory env p options w) =
     (case fst (readAttributesWithType env p None options w) of
        Inl x \<Rightarrow> Inr False
      | Inr a \<Rightarrow> Inr (attr_isDirectory a))"
  by (simp add: isDirectory_def split: prod.splits sum.splits)

lemma isRegularFile_result:
  "fst (isRegularFile env p options w) =
     (case fst (readAttributesWithType env p None options w) of
        Inl x \<Rightarrow> Inr False
      | Inr a \<Rightarrow> Inr (attr_isRegularFile a))"
  by (simp add: isRegularFile_def split: prod.splits sum.splits)

lemma isSymbolicLink_result:
  "fst (isSymbolicLink env p w) =
     (case fst (readAttributesWithType env p None (Some [NOFOLLOW_LINKS]) w) of
        Inl x \<Rightarrow> Inr False
      | Inr a \<Rightarrow> Inr (attr_isSymbolicLink a))"
  by (simp add: isSymbolicLink_def split: prod.splits sum.splits)

lemma getLastModifiedTime_result:
  "fst (getLastModifiedTime env p options w) =
     (case fst (readAttributesWithType env p None options w) of
        Inl x \<Rightarrow> Inl x
      | Inr a \<Rightarrow> Inr (attr_lastModifiedTime a))"
  by (simp add: getLastModifiedTime_def split: prod.splits sum.splits)

lemma size_result:
  "fst (size_Files env p w) =
     (case fst (readAttributesWithType env p None None w) of
        Inl x \<Rightarrow> Inl x
      | Inr a \<Rightarrow> Inr (attr_size a))"
  by (simp add: size_Files_def split: prod.splits sum.splits)


text \<open>
  Claim C3, as the code has it: \<^verbatim>\<open>isDirectory\<close>, \<^verbatim>\<open>isRegularFile\<close> and
  \<^verbatim>\<open>isSymbolicLink\<close> read through \<^verbatim>\<open>readAttributesWithType\<close>, return \<^verbatim>\<open>false\<close> when
  the read fails and never throw; \<^verbatim>\<open>getLastModifiedTime\<close> and \<^verbatim>\<open>size\<close> read through
  \<^verbatim>\<open>readAttributesWithType\<close> too, and throw what the read throws.
\<close>

theorem attribute_getters_failure:
  "fst (isDirectory env p options w) =
     (case fst (readAttributesWithType env p None options w) of
        Inl x \<Rightarrow> Inr False | Inr a \<Rightarrow> Inr (attr_isDirectory a))
   \<and> fst (isRegularFile env p options w) =
     (case fst (readAttributesWithType env p None options w) of
        Inl x \<Rightarrow> Inr False | Inr a \<Rightarrow> Inr (attr_isRegularFile a))
   \<and> fst (isSymbolicLink env p w) =
     (case fst (readAttributesWithType env p None (Some [NOFOLLOW_LINKS]) w) of
        Inl x \<Rightarrow> Inr False | Inr a \<Rightarrow> Inr (attr_isSymbolicLink a))
   \<and> (\<exists>b. fst (isDirectory env p options w) = Inr b)
   \<and> (\<exists>b. fst (isRegularFile env p options w) = Inr b)
   \<and> (\<exists>b. fst (isSymbolicLink env p w) = Inr b)
   \<and> fst (getLastModifiedTime env p options w) =
     (case fst (readAttributesWithType env p None options w) of
        Inl x \<Rightarrow> Inl x | Inr a \<Rightarrow> Inr (attr_lastModifiedTime a))
   \<and> fst (size_Files env p w) =
     (case fst (readAttributesWithType env p None None w) of
        Inl x \<Rightarrow> Inl x | Inr a \<Rightarrow> Inr (attr_size a))"
proof -
  have d: "\<exists>b. fst (isDirectory env p options w) = Inr b"
    by (cases "fst (readAttributesWithType env p None options w)")
      (auto simp add: isDirectory_result)
  have r: "\<exists>b. fst (isRegularFile env p options w) = Inr b"
    by (cases "fst (readAttributesWithType env p None options w)")
      (auto simp add: isRegularFile_result)
  have l: "\<exists>b. fst (isSymbolicLink env p w) = Inr b"
    by (cases "fst (readAttributesWithType env p None (Some [NOFOLLOW_LINKS]) w)")
      (auto simp add: isSymbolicLink_result)
  show ?thesis
    by (intro conjI d r l isDirectory_result isRegularFile_result isSymbolicLink_result
        getLastModifiedTime_result size_result)
qed

text \<open>
  Claim C3 as stated fails for \<^verbatim>\<open>size\<close>: on a path without an entry the provider's read
  throws \<^verbatim>\<open>NoSuchFileException\<close>, and so does \<^verbatim>\<open>size\<close>.
\<close>

theorem size_throws_counterexample:
  "fst (size_Files tree_env (mem_path [''missing'']) small_tree) =
     Inl (NoSuchFileException ''/missing'')"
  by (simp add: size_Files_def readAttributesWithType_def tree_env_simps)

section \<open>Existence\<close>

lemma isNoSuchFile_iff: "isNoSuchFile x = (\<exists>m. x = NoSuchFileException m)"
  by (cases x) simp_all

lemma notExists_result:
  "fst (notExists env p options w) =
     (case fst (existenceCheck env p options w) of
        Inl x \<Rightarrow> Inr (isNoSuchFile x)
      | Inr u \<Rightarrow> Inr False)"
  by (simp add: notExists_def split: prod.splits sum.splits)

lemma exists_result:
  "fst (exists_Files env p options w) =
     (case fst (existenceCheck env p options w) of
        Inl x \<Rightarrow> Inr False
      | Inr u \<Rightarrow> Inr True)"
  by (simp add: exists_Files_def split: prod.splits sum.splits)

text \<open>
  Claim C4: \<^verbatim>\<open>notExists\<close> returns \<^verbatim>\<open>true\<close> exactly when the existence check fails with
  \<^verbatim>\<open>NoSuchFile\<close> and \<^verbatim>\<open>false\<close> otherwise, \<^verbatim>\<open>exists\<close> returns \<^verbatim>\<open>true\<close> exactly when
  the check succeeds, neither throws, and when the check fails with a
  \<^verbatim>\<open>SecurityException\<close> both return \<^verbatim>\<open>false\<close>.
\<close>

theorem exists_notExists_not_complements:
  "(fst (notExists env p options w) = Inr True) =
     (\<exists>m. fst (existenceCheck env p options w) = Inl (NoSuchFileException m))
   \<and> (fst (notExists env p options w) \<noteq> Inr True \<longrightarrow> fst (notExists env p options w) = Inr False)
   \<and> (fst (exists_Files env p options w) = Inr False) =
     (\<exists>x. fst (existenceCheck env p options w) = Inl x)
   \<and> (fst (exists_Files env p options w) \<noteq> Inr False \<longrightarrow>
        fst (exists_Files env p options w) = Inr True)
   \<and> (fst (existenceCheck env p options w) = Inl (SecurityException m) \<longrightarrow>
        fst (exists_Files env p options w) = Inr False
        \<and> fst (notExists env p options w) = Inr False)"
proof (cases "fst (existenceCheck env p options w)")
  case (Inl x)
  then show ?thesis
    by (cases x) (simp_all add: notExists_result exists_result)
next
  case (Inr u)
  then show ?thesis
    by (simp add: notExists_result exists_result)
qed

theorem exists_notExists_not_complements_witness:
  "fst (existenceCheck locked_env (mem_path [''a'']) None small_tree) =
     Inl (SecurityException ''/a'')
   \<and> fst (exists_Files locked_env (mem_path [''a'']) None small_tree) = Inr False
   \<and> fst (notExists locked_env (mem_path [''a'']) None small_tree) = Inr False"
proof -
  have h: "fst (existenceCheck locked_env (mem_path [''a'']) None small_tree) =
      Inl (SecurityException ''/a'')"
    by (simp add: existenceCheck_def followLinks_def locked_env_def tree_env_simps)
  from h show ?thesis
    using exists_notExists_not_complements
      [of locked_env "mem_path [''a'']" None small_tree "''/a''"]
    by blast
qed

section \<open>Copy and move\<close>

lemmas registry_env_simps =
  registry_env_def plain_env_def scheme_provider_def no_provider_def provider_def mem_path_def

lemma copy_same_provider:
  "path_provider target = path_provider source \<Longrightarrow>
   copy env source target options w =
     apfst (map_sum (\<lambda>x. x) (\<lambda>u. target))
       (p_copy (provider env source) source target options w)"
  by (simp add: copy_def split: prod.splits sum.splits)

lemma copy_foreign_provider:
  "path_provider target \<noteq> path_provider source \<Longrightarrow>
   copy env source target options w =
     apfst (map_sum (\<lambda>x. x) (\<lambda>u. target))
       (copyToForeignTarget env source target options w)"
  by (simp add: copy_def split: prod.splits sum.splits)

lemma move_same_provider:
  "path_provider target = path_provider source \<Longrightarrow>
   move env source target options w =
     apfst (map_sum (\<lambda>x. x) (\<lambda>u. target))
       (p_move (provider env source) source target options w)"
  by (simp add: move_def split: prod.splits sum.splits)

lemma move_foreign_provider:
  "path_provider target \<noteq> path_provider source \<Longrightarrow>
   move env source target options w =
     apfst (map_sum (\<lambda>x. x) (\<lambda>u. target))
       (moveToForeignTarget env source target options w)"
  by (simp add: move_def split: prod.splits sum.splits)

lemma copy_returns_target:
  "copy env source target options w = (Inr q, w') \<Longrightarrow> q = target"
  by (simp add: copy_def split: prod.splits sum.splits if_splits)

lemma move_returns_target:
  "move env source target options w = (Inr q, w') \<Longrightarrow> q = target"
  by (simp add: move_def split: prod.splits sum.splits if_splits)

text \<open>
  Claim C7: when source and target have the same provider, \<^verbatim>\<open>copy\<close> and \<^verbatim>\<open>move\<close> are
  the provider's own \<^verbatim>\<open>copy\<close> and \<^verbatim>\<open>move\<close> (same failure, same effect on the world);
  otherwise they are \<^verbatim>\<open>copyToForeignTarget\<close> and \<^verbatim>\<open>moveToForeignTarget\<close>. In both
  cases the value returned is the target path.
\<close>

theorem copy_move_dispatch:
  "(path_provider target = path_provider source \<longrightarrow>
      copy env source target options w =
        apfst (map_sum (\<lambda>x. x) (\<lambda>u. target))
          (p_copy (provider env source) source target options w)
      \<and> move env source target options w =
        apfst (map_sum (\<lambda>x. x) (\<lambda>u. target))
          (p_move (provider env source) source target options w))
   \<and> (path_provider target \<noteq> path_provider source \<longrightarrow>
      copy env source target options w =
        apfst (map_sum (\<lambda>x. x) (\<lambda>u. target))
          (copyToForeignTarget env source target options w)
      \<and> move env source target options w =
        apfst (map_sum (\<lambda>x. x) (\<lambda>u. target))
          (moveToForeignTarget env source target options w))
   \<and> (\<forall>q w'. copy env source target options w = (Inr q, w') \<longrightarrow> q = target)
   \<and> (\<forall>q w'. move env source target options w = (Inr q, w') \<longrightarrow> q = target)"
  using copy_same_provider [of target source env options w]
    copy_foreign_provider [of target source env options w]
    move_same_provider [of target source env options w]
    move_foreign_provider [of target source env options w]
    copy_returns_target [of env source target options w]
    move_returns_target [of env source target options w]
  by blast

theorem copy_move_dispatch_witness:
  "copy (registry_env []) ((mem_path [''s''])\<lparr>path_provider := 1\<rparr>)
      ((mem_path [''t''])\<lparr>path_provider := 1\<rparr>) None [] =
     (Inr ((mem_path [''t''])\<lparr>path_provider := 1\<rparr>), [Call_copy 1])
   \<and> move (registry_env []) ((mem_path [''s''])\<lparr>path_provider := 1\<rparr>)
      ((mem_path [''t''])\<lparr>path_provider := 1\<rparr>) None [] =
     (Inr ((mem_path [''t''])\<lparr>path_provider := 1\<rparr>), [Call_move 1])
   \<and> copy (registry_env []) ((mem_path [''s''])\<lparr>path_provider := 1\<rparr>)
      ((mem_path [''t''])\<lparr>path_provider := 2\<rparr>) None [] =
     (Inr ((mem_path [''t''])\<lparr>path_provider := 2\<rparr>), [Call_copyToForeignTarget])
   \<and> move (registry_env []) ((mem_path [''s''])\<lparr>path_provider := 1\<rparr>)
      ((mem_path [''t''])\<lparr>path_provider := 2\<rparr>) None [] =
     (Inr ((mem_path [''t''])\<lparr>path_provider := 2\<rparr>), [Call_moveToForeignTarget])"
proof -
  let ?s = "(mem_path [''s''])\<lparr>path_provider := 1\<rparr>"
  let ?t1 = "(mem_path [''t''])\<lparr>path_provider := 1\<rparr>"
  let ?t2 = "(mem_path [''t''])\<lparr>path_provider := 2\<rparr>"
  have same: "path_provider ?t1 = path_provider ?s" by simp
  have other: "path_provider ?t2 \<noteq> path_provider ?s" by simp
  have c1: "copy (registry_env []) ?s ?t1 None [] =
      apfst (map_sum (\<lambda>x. x) (\<lambda>u. ?t1))
        (p_copy (provider (registry_env []) ?s) ?s ?t1 None [])"
    using copy_move_dispatch [of ?t1 ?s "registry_env []" None "[]"] same by blast
  have m1: "move (registry_env []) ?s ?t1 None [] =
      apfst (map_sum (\<lambda>x. x) (\<lambda>u. ?t1))
        (p_move (provider (registry_env []) ?s) ?s ?t1 None [])"
    using copy_move_dispatch [of ?t1 ?s "registry_env []" None "[]"] same by blast
  have c2: "copy (registry_env []) ?s ?t2 None [] =
      apfst (map_sum (\<lambda>x. x) (\<lambda>u. ?t2))
        (copyToForeignTarget (registry_env []) ?s ?t2 None [])"
    using copy_move_dispatch [of ?t2 ?s "registry_env []" None "[]"] other by blast
  have m2: "move (registry_env []) ?s ?t2 None [] =
      apfst (map_sum (\<lambda>x. x) (\<lambda>u. ?t2))
        (moveToForeignTarget (registry_env []) ?s ?t2 None [])"
    using copy_move_dispatch [of ?t2 ?s "registry_env []" None "[]"] other by blast
  show ?thesis
    unfolding c1 m1 c2 m2 by (simp add: registry_env_simps)
qed

section \<open>Copying from a stream\<close>

lemmas stream_env_simps =
  stream_env_def plain_env_def no_provider_def provider_def mem_path_def
  newOutputStream_def deleteIfExists_def

lemma openPipeClose_open_failed:
  "newOutputStream env target (Some [CREATE_NEW, WRITE]) w = (Inl x, w1) \<Longrightarrow>
   openPipeClose env ins target se w =
     (Inl (TypeError ''Cannot read properties of undefined''), w1)"
  by (simp add: openPipeClose_def)

lemma openPipeClose_opened:
  "newOutputStream env target (Some [CREATE_NEW, WRITE]) w = (Inr out, w1) \<Longrightarrow>
   stream_pipeTo env ins out w1 = (piped, w2) \<Longrightarrow>
   stream_close env out w2 = (closed, w3) \<Longrightarrow>
   openPipeClose env ins target se w =
     (case closed of
        Inl y \<Rightarrow> Inl y
      | Inr u \<Rightarrow>
          (case piped of
             Inr v \<Rightarrow> Inr ()
           | Inl x \<Rightarrow>
               if isFileAlreadyExists x then Inl (case se of Some s \<Rightarrow> s | None \<Rightarrow> x)
               else Inr ()), w3)"
  by (simp add: openPipeClose_def split: sum.splits option.splits)

text \<open>
  Claim C2 at its failing input: \<^verbatim>\<open>REPLACE_EXISTING\<close> is requested, the deletion of the
  target throws a \<^verbatim>\<open>SecurityException\<close>, and \<^verbatim>\<open>newOutputStream\<close> throws a
  \<^verbatim>\<open>FileAlreadyExistsException\<close>. The call ends with the \<open>TypeError\<close> of the
  \<^verbatim>\<open>finally\<close> clause, after the two provider calls, and not with the
  \<^verbatim>\<open>SecurityException\<close>; without \<^verbatim>\<open>REPLACE_EXISTING\<close> it ends with the same
  \<open>TypeError\<close>, and not with the \<^verbatim>\<open>FileAlreadyExistsException\<close>.
\<close>

theorem copyFromStream_open_conflict_TypeError:
  "copyFromStream
     (stream_env (Inl (SecurityException ''denied''))
        (Inl (FileAlreadyExistsException ''/t'')) (Inr ()) (Inr ()))
     (Some 1) (mem_path [''t'']) (Some [REPLACE_EXISTING]) [] =
     (Inl (TypeError ''Cannot read properties of undefined''),
      [Call_deleteIfExists, Call_newOutputStream])
   \<and> copyFromStream
     (stream_env (Inr False) (Inl (FileAlreadyExistsException ''/t'')) (Inr ()) (Inr ()))
     (Some 1) (mem_path [''t'']) (Some []) [] =
     (Inl (TypeError ''Cannot read properties of undefined''), [Call_newOutputStream])"
  by (simp add: copyFromStream_def preDelete_def openPipeClose_def stream_env_simps)

text \<open>
  Claim C9, as the code has it: once \<^verbatim>\<open>newOutputStream\<close> has returned the output
  stream, \<^verbatim>\<open>close\<close> is called on it after \<^verbatim>\<open>pipeTo\<close>, whether \<^verbatim>\<open>pipeTo\<close> succeeded
  or failed, and the call returns in the world \<^verbatim>\<open>close\<close> leaves. When \<^verbatim>\<open>close\<close>
  fails, its exception is the one thrown; when it succeeds, a pending
  \<^verbatim>\<open>FileAlreadyExistsException\<close> (or the \<^verbatim>\<open>SecurityException\<close> kept in its place) is
  thrown.
\<close>

theorem copyFromStream_closes_opened_stream:
  assumes "copyOptions_loop opts False = Inr replaceExisting"
    and "preDelete env target replaceExisting w = (se, w0)"
    and "newOutputStream env target (Some [CREATE_NEW, WRITE]) w0 = (Inr out, w1)"
    and "stream_pipeTo env ins out w1 = (piped, w2)"
    and "stream_close env out w2 = (closed, w3)"
  shows "copyFromStream env (Some ins) target (Some opts) w =
     (case closed of
        Inl y \<Rightarrow> Inl y
      | Inr u \<Rightarrow>
          (case piped of
             Inr v \<Rightarrow> Inr ()
           | Inl x \<Rightarrow>
               if isFileAlreadyExists x then Inl (case se of Some s \<Rightarrow> s | None \<Rightarrow> x)
               else Inr ()), w3)"
  using assms by (simp add: copyFromStream_def openPipeClose_opened)

theorem copyFromStream_closes_opened_stream_witness:
  "copyFromStream
     (stream_env (Inr True) (Inr 7) (Inl (FileAlreadyExistsException ''/t'')) (Inr ()))
     (Some 1) (mem_path [''t'']) (Some [REPLACE_EXISTING]) [] =
     (Inl (FileAlreadyExistsException ''/t''),
      [Call_deleteIfExists, Call_newOutputStream, Call_pipeTo 1 7, Call_close 7])"
proof -
  let ?env = "stream_env (Inr True) (Inr 7) (Inl (FileAlreadyExistsException ''/t'')) (Inr ())"
  have 1: "copyOptions_loop [REPLACE_EXISTING] False = Inr True" by simp
  have 2: "preDelete ?env (mem_path [''t'']) True [] = (None, [Call_deleteIfExists])"
    by (simp add: preDelete_def stream_env_simps)
  have 3: "newOutputStream ?env (mem_path [''t'']) (Some [CREATE_NEW, WRITE])
      [Call_deleteIfExists] = (Inr 7, [Call_deleteIfExists, Call_newOutputStream])"
    by (simp add: stream_env_simps)
  have 4: "stream_pipeTo ?env 1 7 [Call_deleteIfExists, Call_newOutputStream] =
      (Inl (FileAlreadyExistsException ''/t''),
       [Call_deleteIfExists, Call_newOutputStream, Call_pipeTo 1 7])"
    by (simp add: stream_env_simps)
  have 5: "stream_close ?env 7 [Call_deleteIfExists, Call_newOutputStream, Call_pipeTo 1 7] =
      (Inr (), [Call_deleteIfExists, Call_newOutputStream, Call_pipeTo 1 7, Call_close 7])"
    by (simp add: stream_env_simps)
  show ?thesis
    using copyFromStream_closes_opened_stream [OF 1 2 3 4 5] by simp
qed

text \<open>
  Claim C9 as stated fails where \<^verbatim>\<open>close\<close> fails too: \<^verbatim>\<open>pipeTo\<close> throws a
  \<^verbatim>\<open>FileAlreadyExistsException\<close>, the \<^verbatim>\<open>catch\<close> clause re-throws it, \<^verbatim>\<open>close\<close> throws
  in the \<^verbatim>\<open>finally\<close> clause, and the caller gets the exception of \<^verbatim>\<open>close\<close>.
\<close>

theorem copyFromStream_close_masks_counterexample:
  "copyFromStream
     (stream_env (Inr True) (Inr 7) (Inl (FileAlreadyExistsException ''/t''))
        (Inl (Error ''close failed'')))
     (Some 1) (mem_path [''t'']) (Some []) [] =
     (Inl (Error ''close failed''), [Call_newOutputStream, Call_pipeTo 1 7, Call_close 7])"
  by (simp add: copyFromStream_def preDelete_def openPipeClose_def stream_env_simps)

text \<open>
  Claim C10: with the options omitted the call throws, a \<open>TypeError\<close> once the input
  stream has passed its test (a \<^verbatim>\<open>NullPointerException\<close> before that), and nothing has
  been done to the world. With the empty array it goes on to open the target, with no
  deletion first and no \<^verbatim>\<open>SecurityException\<close> kept.
\<close>

theorem copyFromStream_options_omitted:
  "(\<exists>x. copyFromStream env inputStream target None w = (Inl x, w))
   \<and> copyFromStream env (Some ins) target None w =
       (Inl (TypeError ''options is not iterable''), w)
   \<and> copyFromStream env (Some ins) target (Some []) w = openPipeClose env ins target None w"
  by (cases inputStream) (simp_all add: copyFromStream_def preDelete_def)

theorem copyFromStream_options_omitted_witness:
  "copyFromStream (stream_env (Inr False) (Inr 7) (Inr ()) (Inr ()))
     (Some 1) (mem_path [''t'']) None [] =
     (Inl (TypeError ''options is not iterable''), [])
   \<and> copyFromStream (stream_env (Inr False) (Inr 7) (Inr ()) (Inr ()))
     (Some 1) (mem_path [''t'']) (Some []) [] =
     (Inr (), [Call_newOutputStream, Call_pipeTo 1 7, Call_close 7])"
proof -
  let ?env = "stream_env (Inr False) (Inr 7) (Inr ()) (Inr ())"
  have "openPipeClose ?env 1 (mem_path [''t'']) None [] =
      (Inr (), [Call_newOutputStream, Call_pipeTo 1 7, Call_close 7])"
    by (simp add: openPipeClose_def stream_env_simps)
  then show ?thesis
    using copyFromStream_options_omitted [of ?env "Some 1" "mem_path [''t'']" "[]" 1]
    by simp
qed

section \<open>The registry of providers\<close>

lemma getFileSystem_loop_find:
  "getFileSystem_loop ps scheme u w =
     (case find (\<lambda>p. getScheme p = scheme) ps of
        None \<Rightarrow>
          (Inl (ProviderNotFoundException
                  (''Provider '' @ [CHR 0x22] @ scheme @ [CHR 0x22] @ '' not found'')), w)
      | Some p \<Rightarrow> p_getFileSystem p u w)"
  by (induction ps) simp_all

lemma toLowerCase_examples:
  "toLowerCase ''A'' = ''a''" "toLowerCase ''A:'' = ''a:''" "toLowerCase ''a:'' = ''a:''"
  "toLowerCase ''file:'' = ''file:''" "toLowerCase ''File:'' = ''file:''"
  "toLowerCase ''mem:'' = ''mem:''"
  by code_simp+

lemma toLowerCase_colon: "toLowerCase (s @ '':'') = toLowerCase s @ '':''"
proof -
  have "toLowerCase '':'' = '':''" by code_simp
  then show ?thesis by (simp add: toLowerCase_def)
qed

text \<open>
  What \<^verbatim>\<open>getFileSystem\<close> computes: the result of the first installed provider whose
  \<^verbatim>\<open>getScheme()\<close> is equal to the lower-cased \<^verbatim>\<open>url.protocol\<close>, called in the world as
  it was, and \<^verbatim>\<open>ProviderNotFound\<close> quoting that text when there is none.
\<close>

lemma getFileSystem_find:
  "getFileSystem env u w =
     (case find (\<lambda>p. getScheme p = toLowerCase (protocol u)) (installedProviders env) of
        None \<Rightarrow>
          (Inl (ProviderNotFoundException
                  (''Provider '' @ [CHR 0x22] @ toLowerCase (protocol u) @ [CHR 0x22]
                     @ '' not found'')), w)
      | Some p \<Rightarrow> p_getFileSystem p u w)"
  by (simp add: getFileSystem_def getFileSystem_loop_find)

text \<open>
  Claim C5 at its failing inputs. \<^verbatim>\<open>url.protocol\<close> is the scheme of the URL followed by
  a colon, and the code compares it, colon included, with \<^verbatim>\<open>provider.getScheme()\<close>. So
  for a registry whose providers are registered under schemes (texts without a colon), no
  URL resolves to any provider: every call fails with \<^verbatim>\<open>ProviderNotFound\<close>, and the
  message names the scheme with the colon.
\<close>

theorem getFileSystem_scheme_never_found:
  assumes "protocol u = s @ '':''"
    and "\<forall>p\<in>set (installedProviders env). CHR '':'' \<notin> set (getScheme p)"
  shows "getFileSystem env u w =
     (Inl (ProviderNotFoundException
             (''Provider '' @ [CHR 0x22] @ toLowerCase s @ '':'' @ [CHR 0x22]
                @ '' not found'')), w)"
proof -
  have colon: "CHR '':'' \<in> set (toLowerCase (protocol u))"
    using assms(1) by (simp add: toLowerCase_colon)
  have "\<forall>p\<in>set (installedProviders env). getScheme p \<noteq> toLowerCase (protocol u)"
  proof
    fix p
    assume "p \<in> set (installedProviders env)"
    with assms(2) have "CHR '':'' \<notin> set (getScheme p)" by blast
    with colon show "getScheme p \<noteq> toLowerCase (protocol u)" by metis
  qed
  then have "find (\<lambda>p. getScheme p = toLowerCase (protocol u)) (installedProviders env) = None"
    by (simp add: find_None_iff)
  then show ?thesis
    using assms(1) by (simp add: getFileSystem_find toLowerCase_colon)
qed

text \<open>
  The registry of the spec's own example: providers registered for the schemes \<^verbatim>\<open>a\<close> and
  \<^verbatim>\<open>b\<close>, and a URL with the scheme \<^verbatim>\<open>A\<close>. The provider \<^verbatim>\<open>a\<close> is not found, and no
  provider has been called.
\<close>

theorem getFileSystem_scheme_never_found_witness:
  "getFileSystem
     (registry_env [scheme_provider ''a'' 1 (Inr 1), scheme_provider ''b'' 2 (Inr 2)])
     (URL ''A'' ''//host/x'') [] =
     (Inl (ProviderNotFoundException (''Provider '' @ [CHR 0x22] @ ''a:'' @ [CHR 0x22]
        @ '' not found'')), [])"
proof -
  let ?env = "registry_env [scheme_provider ''a'' 1 (Inr 1), scheme_provider ''b'' 2 (Inr 2)]"
  have 1: "protocol (URL ''A'' ''//host/x'') = ''a'' @ '':''"
    by (simp add: URL_def toLowerCase_examples)
  have 2: "\<forall>p\<in>set (installedProviders ?env). CHR '':'' \<notin> set (getScheme p)"
    by (simp add: registry_env_simps)
  have "toLowerCase ''a'' = ''a''" by code_simp
  then show ?thesis
    using getFileSystem_scheme_never_found [OF 1 2, of "[]"] by simp
qed

text \<open>
  Only the side of the URL is lower-cased: a provider registered as \<^verbatim>\<open>File:\<close>, colon
  included, is not found for the protocol \<^verbatim>\<open>file:\<close> either, while one registered as
  \<^verbatim>\<open>file:\<close> is.
\<close>

lemma getFileSystem_registered_upper_case:
  "getFileSystem (registry_env [scheme_provider ''File:'' 1 (Inr 1)])
     (URL ''file'' ''///x'') [] =
     (Inl (ProviderNotFoundException (''Provider '' @ [CHR 0x22] @ ''file:'' @ [CHR 0x22]
        @ '' not found'')), [])"
  "getFileSystem (registry_env [scheme_provider ''file:'' 1 (Inr 1)])
     (URL ''FILE'' ''///x'') [] = (Inr (Some 1), [Call_getFileSystem ''file:''])"
proof -
  have l: "toLowerCase ''file'' = ''file''" "toLowerCase ''FILE'' = ''file''"
    by code_simp+
  show "getFileSystem (registry_env [scheme_provider ''File:'' 1 (Inr 1)])
     (URL ''file'' ''///x'') [] =
     (Inl (ProviderNotFoundException (''Provider '' @ [CHR 0x22] @ ''file:'' @ [CHR 0x22]
        @ '' not found'')), [])"
    by (simp add: getFileSystem_def URL_def l registry_env_simps toLowerCase_examples)
  show "getFileSystem (registry_env [scheme_provider ''file:'' 1 (Inr 1)])
     (URL ''FILE'' ''///x'') [] = (Inr (Some 1), [Call_getFileSystem ''file:''])"
    by (simp add: getFileSystem_def URL_def l registry_env_simps toLowerCase_examples)
qed

section \<open>New file systems\<close>







section \<open>Creating directories\<close>

lemma isDirectory_returns: "\<exists>b. fst (isDirectory env p options w) = Inr b"
  by (auto simp add: isDirectory_def split: prod.splits sum.splits)

lemma createAndCheckIsDirectory_created:
  "createDirectory env dir attrs w = (Inr d, w') \<Longrightarrow>
   createAndCheckIsDirectory env dir attrs w = (Inr (), w')"
  by (simp add: createAndCheckIsDirectory_def)

lemma createAndCheckIsDirectory_swallows:
  "createDirectory env dir attrs w = (Inl x, w') \<Longrightarrow> \<not> isFileAlreadyExists x \<Longrightarrow>
   createAndCheckIsDirectory env dir attrs w = (Inr (), w')"
  by (simp add: createAndCheckIsDirectory_def)

lemma createAndCheckIsDirectory_exists:
  assumes "createDirectory env dir attrs w = (Inl x, w')" and "isFileAlreadyExists x"
  shows "createAndCheckIsDirectory env dir attrs w =
     (if fst (isDirectory env dir (Some [NOFOLLOW_LINKS]) w') = Inr True then Inr () else Inl x,
      snd (isDirectory env dir (Some [NOFOLLOW_LINKS]) w'))"
proof -
  obtain b w'' where "isDirectory env dir (Some [NOFOLLOW_LINKS]) w' = (Inr b, w'')"
    using isDirectory_returns [of env dir "Some [NOFOLLOW_LINKS]" w']
    by (cases "isDirectory env dir (Some [NOFOLLOW_LINKS]) w'") auto
  with assms show ?thesis
    by (simp add: createAndCheckIsDirectory_def)
qed

lemma createAndCheckIsDirectory_throws:
  assumes "createAndCheckIsDirectory env dir attrs w = (Inl x, w')"
  shows "isFileAlreadyExists x"
proof -
  obtain r w1 where c: "createDirectory env dir attrs w = (r, w1)"
    by (cases "createDirectory env dir attrs w")
  show ?thesis
  proof (cases r)
    case (Inr d)
    with c assms show ?thesis by (simp add: createAndCheckIsDirectory_created)
  next
    case (Inl y)
    show ?thesis
    proof (cases "isFileAlreadyExists y")
      case False
      with c Inl assms show ?thesis by (simp add: createAndCheckIsDirectory_swallows)
    next
      case True
      with c Inl assms have "x = y"
        by (simp add: createAndCheckIsDirectory_exists split: if_splits)
      with True show ?thesis by simp
    qed
  qed
qed

text \<open>
  \<^verbatim>\<open>createAndCheckIsDirectory\<close> throws nothing but a \<^verbatim>\<open>FileAlreadyExistsException\<close>, and
  the first \<^verbatim>\<open>try\<close> of \<^verbatim>\<open>createDirectories\<close> re-throws that one: the statements after
  it are never reached, and the call always returns.
\<close>

lemma createDirectories_first_try:
  "createDirectories env dir attrs w =
     Some (case createAndCheckIsDirectory env dir attrs w of
             (Inr u, w1) \<Rightarrow> (Inr dir, w1)
           | (Inl x, w1) \<Rightarrow> (Inl x, w1))"
proof -
  obtain r w1 where c: "createAndCheckIsDirectory env dir attrs w = (r, w1)"
    by (cases "createAndCheckIsDirectory env dir attrs w")
  show ?thesis
  proof (cases r)
    case (Inr u)
    with c show ?thesis by (simp add: createDirectories_def)
  next
    case (Inl x)
    with c have "isFileAlreadyExists x"
      using createAndCheckIsDirectory_throws [of env dir attrs w x w1] by simp
    with c Inl show ?thesis by (simp add: createDirectories_def)
  qed
qed

lemma createDirectories_after_creation:
  assumes "createDirectory env dir attrs w = (r, w')"
    and "\<And>x. r = Inl x \<Longrightarrow> isFileAlreadyExists x \<Longrightarrow>
           fst (isDirectory env dir (Some [NOFOLLOW_LINKS]) w') = Inr True"
  shows "\<exists>w2. createDirectories env dir attrs w = Some (Inr dir, w2)"
proof (cases r)
  case (Inr d)
  with assms(1) show ?thesis
    by (simp add: createDirectories_first_try createAndCheckIsDirectory_created)
next
  case (Inl x)
  show ?thesis
  proof (cases "isFileAlreadyExists x")
    case False
    with assms(1) Inl show ?thesis
      by (simp add: createDirectories_first_try createAndCheckIsDirectory_swallows)
  next
    case True
    with assms Inl show ?thesis
      by (simp add: createDirectories_first_try createAndCheckIsDirectory_exists)
  qed
qed

text \<open>
  Claim C1, as the code has it. When the creation of a segment fails with
  \<^verbatim>\<open>FileAlreadyExists\<close>, \<^verbatim>\<open>createAndCheckIsDirectory\<close> returns if and only if
  \<^verbatim>\<open>isDirectory(segment, [NOFOLLOW_LINKS])\<close> is true, and throws the same exception
  otherwise. So \<^verbatim>\<open>createDirectories\<close> on a path succeeds again after it has succeeded, for
  a provider that shows a directory it has created as a directory, whose failed creation
  changes nothing and whose directory check changes nothing (the three assumptions); and
  it fails with the provider's \<^verbatim>\<open>FileAlreadyExists\<close> when the provider reports one for
  the path itself and the path is not a directory.
\<close>

theorem createDirectories_existing_entry:
  assumes created: "\<And>w w' d. createDirectory env dir attrs w = (Inr d, w') \<Longrightarrow>
      fst (isDirectory env dir (Some [NOFOLLOW_LINKS]) w') = Inr True"
    and failed: "\<And>w w' x. createDirectory env dir attrs w = (Inl x, w') \<Longrightarrow> w' = w"
    and checked: "\<And>w. snd (isDirectory env dir (Some [NOFOLLOW_LINKS]) w) = w"
  shows "(createDirectory env seg attrs w = (Inl (FileAlreadyExistsException m), w1) \<longrightarrow>
      createAndCheckIsDirectory env seg attrs w =
        (if fst (isDirectory env seg (Some [NOFOLLOW_LINKS]) w1) = Inr True then Inr ()
         else Inl (FileAlreadyExistsException m),
         snd (isDirectory env seg (Some [NOFOLLOW_LINKS]) w1)))
   \<and> (createDirectories env dir attrs w = Some (Inr d, w1) \<longrightarrow>
        (\<exists>w2. createDirectories env dir attrs w1 = Some (Inr d, w2)))
   \<and> (createDirectory env dir attrs w = (Inl (FileAlreadyExistsException m), w1)
        \<and> fst (isDirectory env dir (Some [NOFOLLOW_LINKS]) w1) = Inr False \<longrightarrow>
        createDirectories env dir attrs w =
          Some (Inl (FileAlreadyExistsException m),
                snd (isDirectory env dir (Some [NOFOLLOW_LINKS]) w1)))"
proof (intro conjI impI)
  assume "createDirectory env seg attrs w = (Inl (FileAlreadyExistsException m), w1)"
  then show "createAndCheckIsDirectory env seg attrs w =
        (if fst (isDirectory env seg (Some [NOFOLLOW_LINKS]) w1) = Inr True then Inr ()
         else Inl (FileAlreadyExistsException m),
         snd (isDirectory env seg (Some [NOFOLLOW_LINKS]) w1))"
    by (simp add: createAndCheckIsDirectory_exists)
next
  assume "createDirectory env dir attrs w = (Inl (FileAlreadyExistsException m), w1)
        \<and> fst (isDirectory env dir (Some [NOFOLLOW_LINKS]) w1) = Inr False"
  then show "createDirectories env dir attrs w =
          Some (Inl (FileAlreadyExistsException m),
                snd (isDirectory env dir (Some [NOFOLLOW_LINKS]) w1))"
    by (simp add: createDirectories_first_try createAndCheckIsDirectory_exists)
next
  assume first: "createDirectories env dir attrs w = Some (Inr d, w1)"
  then have d: "d = dir"
    by (simp add: createDirectories_first_try split: prod.splits sum.splits)
  obtain r w' where c: "createDirectory env dir attrs w = (r, w')"
    by (cases "createDirectory env dir attrs w")
  obtain r2 w2 where c2: "createDirectory env dir attrs w1 = (r2, w2)"
    by (cases "createDirectory env dir attrs w1")
  have "\<exists>w3. createDirectories env dir attrs w1 = Some (Inr dir, w3)"
  proof (rule createDirectories_after_creation [OF c2])
    fix x
    assume r2: "r2 = Inl x" and x: "isFileAlreadyExists x"
    with c2 failed have w2: "w2 = w1" by blast
    show "fst (isDirectory env dir (Some [NOFOLLOW_LINKS]) w2) = Inr True"
    proof (cases r)
      case (Inr d')
      with c first have "w1 = w'"
        by (simp add: createDirectories_first_try createAndCheckIsDirectory_created)
      with c Inr created w2 show ?thesis by blast
    next
      case (Inl y)
      with c failed have w': "w' = w" by blast
      show ?thesis
      proof (cases "isFileAlreadyExists y")
        case False
        with c Inl first have "w1 = w'"
          by (simp add: createDirectories_first_try createAndCheckIsDirectory_swallows)
        with w' c c2 Inl r2 have "y = x" by simp
        with False x show ?thesis by simp
      next
        case True
        with c Inl first w' have
          "fst (isDirectory env dir (Some [NOFOLLOW_LINKS]) w) = Inr True"
          and "w1 = snd (isDirectory env dir (Some [NOFOLLOW_LINKS]) w)"
          by (auto simp add: createDirectories_first_try createAndCheckIsDirectory_exists
              split: if_splits)
        with checked w2 show ?thesis by simp
      qed
    qed
  qed
  with d show "\<exists>w2. createDirectories env dir attrs w1 = Some (Inr d, w2)" by simp
qed

lemma tree_created:
  "createDirectory tree_env dir attrs w = (Inr d, w') \<Longrightarrow>
   fst (isDirectory tree_env dir (Some [NOFOLLOW_LINKS]) w') = Inr True"
  by (auto simp add: createDirectory_def isDirectory_def readAttributesWithType_def
      tree_env_def plain_env_def tree_provider_def no_provider_def provider_def
      tree_createDirectory_def tree_readAttributes_def attributesOf_def
      split: option.splits node.splits)

lemma tree_failed:
  "createDirectory tree_env dir attrs w = (Inl x, w') \<Longrightarrow> w' = w"
  by (auto simp add: createDirectory_def
      tree_env_def plain_env_def tree_provider_def no_provider_def provider_def
      tree_createDirectory_def split: option.splits node.splits)

lemma tree_checked:
  "snd (isDirectory tree_env dir (Some [NOFOLLOW_LINKS]) w) = w"
  by (auto simp add: isDirectory_def readAttributesWithType_def
      tree_env_def plain_env_def tree_provider_def no_provider_def provider_def
      tree_readAttributes_def split: option.splits)

theorem createDirectories_existing_entry_witness:
  "createDirectories tree_env (mem_path [''a'', ''b'']) None small_tree =
     Some (Inr (mem_path [''a'', ''b'']), small_tree([''a'', ''b''] \<mapsto> Directory))
   \<and> (\<exists>w2. createDirectories tree_env (mem_path [''a'', ''b'']) None
              (small_tree([''a'', ''b''] \<mapsto> Directory)) =
            Some (Inr (mem_path [''a'', ''b'']), w2))
   \<and> createDirectories tree_env (mem_path [''a'', ''f'']) None small_tree =
       Some (Inl (FileAlreadyExistsException ''/a/f''), small_tree)"
proof -
  have first: "createDirectories tree_env (mem_path [''a'', ''b'']) None small_tree =
     Some (Inr (mem_path [''a'', ''b'']), small_tree([''a'', ''b''] \<mapsto> Directory))"
    by (simp add: createDirectories_first_try createAndCheckIsDirectory_def
        createDirectory_def tree_env_simps)
  have again: "\<exists>w2. createDirectories tree_env (mem_path [''a'', ''b'']) None
              (small_tree([''a'', ''b''] \<mapsto> Directory)) =
            Some (Inr (mem_path [''a'', ''b'']), w2)"
    using createDirectories_existing_entry
      [of tree_env "mem_path [''a'', ''b'']" None, OF tree_created tree_failed tree_checked,
        THEN conjunct2, THEN conjunct1] first
    by (rule mp)
  have isfile: "createDirectory tree_env (mem_path [''a'', ''f'']) None small_tree =
      (Inl (FileAlreadyExistsException ''/a/f''), small_tree)
    \<and> fst (isDirectory tree_env (mem_path [''a'', ''f'']) (Some [NOFOLLOW_LINKS]) small_tree) =
      Inr False"
    by (simp add: createDirectory_def isDirectory_def readAttributesWithType_def
        tree_env_simps)
  have "createDirectories tree_env (mem_path [''a'', ''f'']) None small_tree =
      Some (Inl (FileAlreadyExistsException ''/a/f''),
            snd (isDirectory tree_env (mem_path [''a'', ''f'']) (Some [NOFOLLOW_LINKS])
                   small_tree))"
    using createDirectories_existing_entry
      [of tree_env "mem_path [''a'', ''f'']" None, OF tree_created tree_failed tree_checked,
        THEN conjunct2, THEN conjunct2] isfile
    by (rule mp)
  then have conflict: "createDirectories tree_env (mem_path [''a'', ''f'']) None small_tree =
      Some (Inl (FileAlreadyExistsException ''/a/f''), small_tree)"
    by (simp only: tree_checked)
  from first again conflict show ?thesis by blast
qed

text \<open>
  Claim C1 as stated fails in its last part. In the tree below \<^verbatim>\<open>/a/f\<close> is a regular
  file; the provider's \<^verbatim>\<open>createDirectory\<close> of \<^verbatim>\<open>/a/f/x\<close> fails, but not with
  \<^verbatim>\<open>FileAlreadyExists\<close>, since \<^verbatim>\<open>/a/f/x\<close> has no entry; \<^verbatim>\<open>createDirectories\<close> does not
  fail with \<^verbatim>\<open>FileAlreadyExists\<close>.
\<close>

theorem createDirectories_parent_file_counterexample:
  "small_tree [''a'', ''f''] = Some RegularFile
   \<and> fst (createDirectory tree_env (mem_path [''a'', ''f'', ''x'']) None small_tree) =
       Inl (FileSystemException ''/a/f/x'' None ''Not a directory'')
   \<and> createDirectories tree_env (mem_path [''a'', ''f'', ''x'']) None small_tree =
       Some (Inr (mem_path [''a'', ''f'', ''x'']), small_tree)"
  by (simp add: createDirectories_first_try createAndCheckIsDirectory_def
      createDirectory_def tree_env_simps)

lemmas locked_env_simps =
  locked_env_def plain_env_def tree_provider_def no_provider_def provider_def
  tree_createDirectory_def slash_toString_def small_tree_def mem_path_def

text \<open>
  Claim C8 at its failing input: \<^verbatim>\<open>/b\<close> has no entry, so the provider cannot create
  \<^verbatim>\<open>/b/c\<close>, and the access check fails for every path. The walk from the parent of
  \<^verbatim>\<open>/b/c\<close> up to the root would find no accessible parent; but
  \<^verbatim>\<open>createDirectories\<close> returns the path, as if it had created the directory, and
  leaves the tree as it was. (By \<open>createDirectories_first_try\<close> no call reaches the walk.)
\<close>

theorem createDirectories_walk_unreached:
  "findAccessibleParent locked_env (path_getParent locked_env (mem_path [''b'', ''c'']))
      small_tree = Some (None, small_tree)
   \<and> fst (createDirectory locked_env (mem_path [''b'', ''c'']) None small_tree) =
       Inl (NoSuchFileException ''/b/c'')
   \<and> createDirectories locked_env (mem_path [''b'', ''c'']) None small_tree =
       Some (Inr (mem_path [''b'', ''c'']), small_tree)
   \<and> small_tree [''b'', ''c''] = None"
proof -
  have walk: "findAccessibleParent locked_env
      (path_getParent locked_env (mem_path [''b'', ''c''])) small_tree =
      Some (None, small_tree)"
    by (simp add: findAccessibleParent.simps locked_env_simps)
  have rest: "fst (createDirectory locked_env (mem_path [''b'', ''c'']) None small_tree) =
       Inl (NoSuchFileException ''/b/c'')
   \<and> createDirectories locked_env (mem_path [''b'', ''c'']) None small_tree =
       Some (Inr (mem_path [''b'', ''c'']), small_tree)
   \<and> small_tree [''b'', ''c''] = None"
    by (simp add: createDirectories_first_try createAndCheckIsDirectory_def
        createDirectory_def locked_env_simps)
  from walk rest show ?thesis by (rule conjI)
qed

end
